theory Spec2Isabelle
  imports Complex_Main "HOL-Library.Sublist"
begin

section \<open>Strings\<close>

text \<open>
  A Python \<open>str\<close> is a sequence of code points. The model covers the code points
  U+0000 to U+00FF: a \<^typ>\<open>char\<close> is read as the code point with that number, so
  \<^typ>\<open>string\<close> is a \<open>str\<close> over Latin-1. On this range \<open>str.lower\<close> works
  code point by code point and \<open>str.isspace\<close> holds for exactly the code points
  listed in \<open>isspace\<close>.
\<close>

definition isspace :: "char \<Rightarrow> bool" where
  "isspace c = (let n = (of_char c :: nat) in
     (9 \<le> n \<and> n \<le> 13) \<or> (28 \<le> n \<and> n \<le> 32) \<or> n = 133 \<or> n = 160)"

definition lower_char :: "char \<Rightarrow> char" where
  "lower_char c = (let n = (of_char c :: nat) in
     if (65 \<le> n \<and> n \<le> 90) \<or> (192 \<le> n \<and> n \<le> 214) \<or> (216 \<le> n \<and> n \<le> 222)
     then char_of (n + 32) else c)"

text \<open>\<open>s.strip()\<close>: leading and trailing whitespace removed.\<close>

definition strip :: "string \<Rightarrow> string" where
  "strip s = rev (dropWhile isspace (rev (dropWhile isspace s)))"

text \<open>\<open>s.lower()\<close>.\<close>

definition lower :: "string \<Rightarrow> string" where
  "lower s = map lower_char s"

text \<open>
  The substring test \<open>a in b\<close> of two strings is \<^term>\<open>sublist a b\<close>: \<open>b\<close> is
  \<open>ps @ a @ ss\<close> for some \<open>ps\<close> and \<open>ss\<close>.
\<close>

section \<open>Suggestions and the suggestion service\<close>

record WordSuggestion =
  word :: string
  type :: string
  confidence :: real

text \<open>
  The dictionary \<open>built_in_synonyms\<close> keeps its insertion order, which the loop over
  \<open>items()\<close> follows: it is an association list with distinct keys.
\<close>

record MockWordSuggestionService =
  built_in_synonyms :: "(string \<times> string list) list"

definition MockWordSuggestionService_init :: MockWordSuggestionService where
  "MockWordSuggestionService_init = \<lparr>built_in_synonyms = [
     (''good'', [''excellent'', ''great'', ''wonderful'', ''fantastic'', ''superb'']),
     (''bad'', [''terrible'', ''awful'', ''horrible'', ''poor'', ''dreadful'']),
     (''big'', [''large'', ''huge'', ''enormous'', ''massive'', ''gigantic'']),
     (''small'', [''tiny'', ''little'', ''minute'', ''petite'', ''compact'']),
     (''fast'', [''quick'', ''rapid'', ''swift'', ''speedy'', ''hasty'']),
     (''slow'', [''gradual'', ''leisurely'', ''sluggish'', ''unhurried'', ''deliberate'']),
     (''happy'', [''joyful'', ''cheerful'', ''delighted'', ''elated'', ''content'']),
     (''sad'', [''sorrowful'', ''melancholy'', ''dejected'', ''gloomy'', ''mournful'']),
     (''beautiful'', [''gorgeous'', ''stunning'', ''attractive'', ''lovely'', ''magnificent'']),
     (''ugly'', [''hideous'', ''unsightly'', ''repulsive'', ''grotesque'', ''unattractive'']),
     (''smart'', [''intelligent'', ''brilliant'', ''clever'', ''wise'', ''sharp'']),
     (''stupid'', [''foolish'', ''ignorant'', ''dumb'', ''senseless'', ''mindless'']),
     (''important'', [''significant'', ''crucial'', ''vital'', ''essential'', ''critical'']),
     (''easy'', [''simple'', ''effortless'', ''straightforward'', ''uncomplicated'', ''basic'']),
     (''difficult'', [''challenging'', ''tough'', ''demanding'', ''complex'', ''arduous'']),
     (''new'', [''fresh'', ''recent'', ''modern'', ''novel'', ''contemporary'']),
     (''old'', [''ancient'', ''vintage'', ''aged'', ''elderly'', ''antique'']),
     (''hot'', [''warm'', ''scorching'', ''blazing'', ''sweltering'', ''boiling'']),
     (''cold'', [''frigid'', ''freezing'', ''chilly'', ''icy'', ''arctic'']),
     (''bright'', [''luminous'', ''radiant'', ''brilliant'', ''vivid'', ''gleaming''])]\<rparr>"

text \<open>
  The loop of \<open>get_suggestions\<close> over the items of the dictionary: the first key that
  is in the text, or that the text is in, sets the suggestions and ends the loop.
\<close>

fun partial_matches :: "string \<Rightarrow> (string \<times> string list) list \<Rightarrow> WordSuggestion list" where
  "partial_matches clean_text [] = []"
| "partial_matches clean_text ((key, synonyms) # items) =
     (if sublist key clean_text \<or> sublist clean_text key
      then map (\<lambda>w. \<lparr>word = w, type = ''related'', confidence = 0.6\<rparr>) (take 3 synonyms)
      else partial_matches clean_text items)"

definition general_alternatives :: "string list" where
  "general_alternatives = [''alternative'', ''option'', ''choice'', ''variant'', ''substitute'']"

definition get_suggestions :: "MockWordSuggestionService \<Rightarrow> string \<Rightarrow> WordSuggestion list" where
  "get_suggestions self text =
     (let clean_text = lower (strip text);
          exact = (case map_of (built_in_synonyms self) clean_text of
                     Some synonyms \<Rightarrow>
                       map (\<lambda>w. \<lparr>word = w, type = ''synonym'', confidence = 0.8\<rparr>) (take 5 synonyms)
                   | None \<Rightarrow> []);
          suggestions = (if exact = [] then partial_matches clean_text (built_in_synonyms self)
                         else exact)
      in if length suggestions < 3
         then suggestions @
              map (\<lambda>alt. \<lparr>word = alt, type = ''alternative'', confidence = 0.4\<rparr>)
                (take (5 - length suggestions) general_alternatives)
         else suggestions)"

section \<open>The suggestion window and the application delegate\<close>

text \<open>
  What the program prints is kept as a list of lines, one constructor for each
  \<open>print\<close> of the methods modelled here; the box that \<open>show_suggestions\<close> draws around
  a non-empty list is the one line \<open>Window_drawn\<close>.
\<close>

datatype console_line =
    Empty_selection_ignored
  | Processing_text string
  | Found_suggestions nat
  | No_suggestions_found
  | Window_drawn "WordSuggestion list" "int \<times> int"
  | No_suggestions_to_display
  | Window_hidden

record MockSuggestionWindow =
  is_visible :: bool
  current_suggestions :: "WordSuggestion list"
  position :: "int \<times> int"

definition MockSuggestionWindow_init :: MockSuggestionWindow where
  "MockSuggestionWindow_init =
     \<lparr>is_visible = False, current_suggestions = [], position = (0, 0)\<rparr>"

definition show_suggestions ::
  "WordSuggestion list \<Rightarrow> int \<times> int \<Rightarrow> MockSuggestionWindow
     \<Rightarrow> MockSuggestionWindow \<times> console_line list" where
  "show_suggestions suggestions pos self =
     (let self' = \<lparr>is_visible = (length suggestions > 0),
                   current_suggestions = suggestions, position = pos\<rparr>
      in if is_visible self' then (self', [Window_drawn suggestions pos])
         else (self', [No_suggestions_to_display]))"

definition hide :: "MockSuggestionWindow \<Rightarrow> MockSuggestionWindow \<times> console_line list" where
  "hide self = (self\<lparr>is_visible := False, current_suggestions := []\<rparr>, [Window_hidden])"

record MockTextMonitor =
  is_monitoring :: bool

record MockAppDelegate =
  text_monitor :: MockTextMonitor
  suggestion_service :: MockWordSuggestionService
  suggestion_window :: MockSuggestionWindow
  console :: "console_line list"

definition MockAppDelegate_init :: MockAppDelegate where
  "MockAppDelegate_init =
     \<lparr>text_monitor = \<lparr>is_monitoring = False\<rparr>,
      suggestion_service = MockWordSuggestionService_init,
      suggestion_window = MockSuggestionWindow_init,
      console = []\<rparr>"

definition text_selection_detected ::
  "string \<Rightarrow> int \<times> int \<Rightarrow> MockAppDelegate \<Rightarrow> MockAppDelegate" where
  "text_selection_detected text pos self =
     (let clean_text = strip text
      in if clean_text = [] then self\<lparr>console := console self @ [Empty_selection_ignored]\<rparr>
         else
           let suggestions = get_suggestions (suggestion_service self) clean_text
           in if suggestions \<noteq> []
              then (case show_suggestions suggestions pos (suggestion_window self) of
                      (window, printed) \<Rightarrow>
                        self\<lparr>suggestion_window := window,
                             console := console self @
                               [Processing_text clean_text,
                                Found_suggestions (length suggestions)] @ printed\<rparr>)
              else self\<lparr>console := console self @
                          [Processing_text clean_text, No_suggestions_found]\<rparr>)"

text \<open>The dictionary of a freshly constructed service.\<close>

abbreviation lexicon :: "(string \<times> string list) list" where
  "lexicon \<equiv> built_in_synonyms MockWordSuggestionService_init"

section \<open>Normalisation: \<open>strip\<close> and \<open>lower\<close>\<close>

lemma lower_char_idem: "lower_char (lower_char c) = lower_char c"
  unfolding lower_char_def Let_def by auto

lemma isspace_lower_char: "isspace (lower_char c) = isspace c"
  unfolding lower_char_def isspace_def Let_def by auto

lemma lower_idem: "lower (lower s) = lower s"
  by (simp add: lower_def lower_char_idem)

lemma dropWhile_isspace_lower:
  "dropWhile isspace (lower s) = lower (dropWhile isspace s)"
  by (induction s) (simp_all add: lower_def isspace_lower_char)

lemma rev_lower: "rev (lower s) = lower (rev s)"
  by (simp add: lower_def rev_map)

lemma strip_lower: "strip (lower s) = lower (strip s)"
  by (simp add: strip_def dropWhile_isspace_lower rev_lower)

lemma dropWhile_fixed: "xs = [] \<or> \<not> P (hd xs) \<Longrightarrow> dropWhile P xs = xs"
  by (cases xs) auto

text \<open>A stripped string is empty, or starts and ends with a character that is no whitespace.\<close>

lemma strip_ends:
  "strip s = [] \<or> (\<not> isspace (hd (strip s)) \<and> \<not> isspace (last (strip s)))"
proof (cases "strip s = []")
  case True
  then show ?thesis by simp
next
  case False
  define u where "u = dropWhile isspace s"
  define v where "v = dropWhile isspace (rev u)"
  have sv: "strip s = rev v" by (simp add: strip_def u_def v_def)
  with False have v: "v \<noteq> []" by simp
  then have hv: "\<not> isspace (hd v)" unfolding v_def by (rule hd_dropWhile)
  from v have u: "u \<noteq> []" unfolding v_def by auto
  then have hu: "\<not> isspace (hd u)" unfolding u_def by (rule hd_dropWhile)
  obtain ws where "rev u = ws @ v"
    unfolding v_def by (metis takeWhile_dropWhile_id)
  with v have "last v = last (rev u)" by simp
  also have "\<dots> = hd u" using u by (simp add: last_rev)
  finally have "\<not> isspace (last v)" using hu by simp
  with hv v sv show ?thesis by (simp add: hd_rev last_rev)
qed

lemma strip_fixed:
  assumes "s = [] \<or> (\<not> isspace (hd s) \<and> \<not> isspace (last s))"
  shows "strip s = s"
proof (cases "s = []")
  case True
  then show ?thesis by (simp add: strip_def)
next
  case False
  with assms have h: "\<not> isspace (hd s)" and l: "\<not> isspace (last s)" by auto
  from False h have "dropWhile isspace s = s" by (simp add: dropWhile_fixed)
  moreover from False l have "dropWhile isspace (rev s) = rev s"
    by (simp add: dropWhile_fixed hd_rev)
  ultimately show ?thesis by (simp add: strip_def)
qed

lemma strip_idem: "strip (strip s) = strip s"
  by (rule strip_fixed) (rule strip_ends)

lemma clean_idem: "lower (strip (lower (strip t))) = lower (strip t)"
  by (simp add: strip_lower strip_idem lower_idem)

section \<open>The loop over the dictionary\<close>

lemma partial_matches_none:
  "\<forall>(key, synonyms) \<in> set items. \<not> sublist key c \<and> \<not> sublist c key
     \<Longrightarrow> partial_matches c items = []"
  by (induction items) auto

lemma partial_matches_first:
  "i < length items \<Longrightarrow>
   sublist (fst (items ! i)) c \<or> sublist c (fst (items ! i)) \<Longrightarrow>
   \<forall>j < i. \<not> sublist (fst (items ! j)) c \<and> \<not> sublist c (fst (items ! j)) \<Longrightarrow>
   partial_matches c items =
     map (\<lambda>w. \<lparr>word = w, type = ''related'', confidence = 0.6\<rparr>) (take 3 (snd (items ! i)))"
proof (induction items arbitrary: i)
  case Nil
  then show ?case by simp
next
  case (Cons e items)
  obtain key synonyms where e: "e = (key, synonyms)" by (cases e)
  show ?case
  proof (cases i)
    case 0
    with Cons.prems(2) e show ?thesis by simp
  next
    case (Suc i')
    from Cons.prems(3) Suc have "\<not> sublist key c \<and> \<not> sublist c key"
      using e by fastforce
    moreover have "partial_matches c items =
      map (\<lambda>w. \<lparr>word = w, type = ''related'', confidence = 0.6\<rparr>) (take 3 (snd (items ! i')))"
    proof (rule Cons.IH)
      show "i' < length items" using Cons.prems(1) Suc by simp
      show "sublist (fst (items ! i')) c \<or> sublist c (fst (items ! i'))"
        using Cons.prems(2) Suc by simp
      show "\<forall>j<i'. \<not> sublist (fst (items ! j)) c \<and> \<not> sublist c (fst (items ! j))"
        using Cons.prems(3) Suc by fastforce
    qed
    ultimately show ?thesis using e Suc by simp
  qed
qed

lemma partial_matches_hit:
  "\<exists>(key, synonyms) \<in> set items. sublist key c \<or> sublist c key \<Longrightarrow>
   \<exists>(key, synonyms) \<in> set items. (sublist key c \<or> sublist c key) \<and>
      partial_matches c items =
        map (\<lambda>w. \<lparr>word = w, type = ''related'', confidence = 0.6\<rparr>) (take 3 synonyms)"
proof (induction items)
  case Nil
  then show ?case by simp
next
  case (Cons e items)
  obtain key synonyms where e: "e = (key, synonyms)" by (cases e)
  show ?case
  proof (cases "sublist key c \<or> sublist c key")
    case True
    with e show ?thesis by auto
  next
    case False
    with e Cons.prems
    have "\<exists>(key, synonyms) \<in> set items. sublist key c \<or> sublist c key" by auto
    from Cons.IH [OF this] False e show ?thesis by fastforce
  qed
qed

section \<open>The built-in dictionary\<close>

lemma lexicon_keys_distinct: "distinct (map fst lexicon)"
  by code_simp

lemma lexicon_five: "\<forall>(key, synonyms) \<in> set lexicon. length synonyms = 5"
  by code_simp

lemma lexicon_map_of:
  "map_of lexicon c = Some synonyms \<longleftrightarrow> (c, synonyms) \<in> set lexicon"
  using lexicon_keys_distinct by (rule map_of_eq_Some_iff)

lemma lexicon_map_of_None:
  "map_of lexicon c = None \<longleftrightarrow> c \<notin> fst ` set lexicon"
  by (rule map_of_eq_None_iff)

text \<open>The three ways through \<open>get_suggestions\<close> on the built-in dictionary.\<close>

lemma get_suggestions_exact:
  assumes "(lower (strip text), synonyms) \<in> set lexicon"
  shows "get_suggestions MockWordSuggestionService_init text =
           map (\<lambda>w. \<lparr>word = w, type = ''synonym'', confidence = 0.8\<rparr>) synonyms"
proof -
  from assms have m: "map_of lexicon (lower (strip text)) = Some synonyms"
    by (simp add: lexicon_map_of)
  from assms lexicon_five have l: "length synonyms = 5" by fastforce
  then have "synonyms \<noteq> []" by auto
  with m l show ?thesis by (simp add: get_suggestions_def)
qed

lemma get_suggestions_inexact:
  assumes "lower (strip text) \<notin> fst ` set lexicon"
  shows "get_suggestions MockWordSuggestionService_init text =
     (let suggestions = partial_matches (lower (strip text)) lexicon
      in if length suggestions < 3
         then suggestions @
              map (\<lambda>alt. \<lparr>word = alt, type = ''alternative'', confidence = 0.4\<rparr>)
                (take (5 - length suggestions) general_alternatives)
         else suggestions)"
proof -
  from assms have "map_of lexicon (lower (strip text)) = None"
    by (simp add: lexicon_map_of_None)
  then show ?thesis by (simp add: get_suggestions_def)
qed

lemma get_suggestions_partial:
  assumes "lower (strip text) \<notin> fst ` set lexicon"
    and "(key, synonyms) \<in> set lexicon"
    and "partial_matches (lower (strip text)) lexicon =
           map (\<lambda>w. \<lparr>word = w, type = ''related'', confidence = 0.6\<rparr>) (take 3 synonyms)"
  shows "get_suggestions MockWordSuggestionService_init text =
           map (\<lambda>w. \<lparr>word = w, type = ''related'', confidence = 0.6\<rparr>) (take 3 synonyms)"
proof -
  from assms(2) lexicon_five have "length synonyms = 5" by fastforce
  then have "length (take 3 synonyms) = 3" by simp
  with assms(3) have "length (partial_matches (lower (strip text)) lexicon) = 3" by simp
  with assms(1,3) show ?thesis by (simp add: get_suggestions_inexact)
qed

lemma get_suggestions_no_match:
  assumes "\<forall>(key, synonyms) \<in> set (built_in_synonyms self).
             \<not> sublist key (lower (strip text)) \<and> \<not> sublist (lower (strip text)) key"
  shows "get_suggestions self text =
           map (\<lambda>alt. \<lparr>word = alt, type = ''alternative'', confidence = 0.4\<rparr>) general_alternatives"
proof -
  have "lower (strip text) \<notin> fst ` set (built_in_synonyms self)"
  proof
    assume "lower (strip text) \<in> fst ` set (built_in_synonyms self)"
    then obtain synonyms where "(lower (strip text), synonyms) \<in> set (built_in_synonyms self)"
      by auto
    with assms show False by auto
  qed
  then have "map_of (built_in_synonyms self) (lower (strip text)) = None"
    by (simp add: map_of_eq_None_iff)
  moreover from assms have "partial_matches (lower (strip text)) (built_in_synonyms self) = []"
    by (rule partial_matches_none)
  ultimately show ?thesis by (simp add: get_suggestions_def general_alternatives_def)
qed

lemma lexicon_words_distinct:
  "\<forall>(key, synonyms) \<in> set lexicon. distinct (map lower synonyms)"
  by code_simp

lemma general_alternatives_distinct: "distinct (map lower general_alternatives)"
  by code_simp

lemma constant_confidence_sorted:
  "sorted_wrt (\<ge>) (map confidence (map (\<lambda>w. \<lparr>word = w, type = ty, confidence = c\<rparr>) ws))"
  by (induction ws) auto

lemma words_of_suggestions:
  "map (lower \<circ> word) (map (\<lambda>w. \<lparr>word = w, type = ty, confidence = c\<rparr>) ws) = map lower ws"
  by simp

text \<open>What \<open>get_suggestions\<close> can return on the built-in dictionary.\<close>

lemma get_suggestions_shape:
  "(\<exists>(key, synonyms) \<in> set lexicon.
      get_suggestions MockWordSuggestionService_init text =
        map (\<lambda>w. \<lparr>word = w, type = ''synonym'', confidence = 0.8\<rparr>) synonyms
    \<or> get_suggestions MockWordSuggestionService_init text =
        map (\<lambda>w. \<lparr>word = w, type = ''related'', confidence = 0.6\<rparr>) (take 3 synonyms))
   \<or> get_suggestions MockWordSuggestionService_init text =
        map (\<lambda>alt. \<lparr>word = alt, type = ''alternative'', confidence = 0.4\<rparr>) general_alternatives"
proof -
  let ?c = "lower (strip text)"
  show ?thesis
  proof (cases "?c \<in> fst ` set lexicon")
    case True
    then obtain synonyms where e: "(?c, synonyms) \<in> set lexicon" by auto
    from get_suggestions_exact [OF e] e show ?thesis by blast
  next
    case False
    show ?thesis
    proof (cases "\<exists>(key, synonyms) \<in> set lexicon. sublist key ?c \<or> sublist ?c key")
      case True
      from partial_matches_hit [OF True] obtain key synonyms
        where e: "(key, synonyms) \<in> set lexicon"
          and p: "partial_matches ?c lexicon =
                    map (\<lambda>w. \<lparr>word = w, type = ''related'', confidence = 0.6\<rparr>) (take 3 synonyms)"
        by auto
      from get_suggestions_partial [OF False e p] e show ?thesis by blast
    next
      case nohit: False
      then have "\<forall>(key, synonyms) \<in> set lexicon. \<not> sublist key ?c \<and> \<not> sublist ?c key"
        by auto
      from get_suggestions_no_match [OF this] show ?thesis by simp
    qed
  qed
qed

lemma get_suggestions_invariants:
  "distinct (map (lower \<circ> word) (get_suggestions MockWordSuggestionService_init text))
   \<and> sorted_wrt (\<ge>) (map confidence (get_suggestions MockWordSuggestionService_init text))
   \<and> length (get_suggestions MockWordSuggestionService_init text) \<le> 5"
proof -
  let ?r = "get_suggestions MockWordSuggestionService_init text"
  from get_suggestions_shape [of "text"] consider
    (entry) key synonyms ty c where "(key, synonyms) \<in> set lexicon"
      "?r = map (\<lambda>w. \<lparr>word = w, type = ty, confidence = c\<rparr>) synonyms
       \<or> ?r = map (\<lambda>w. \<lparr>word = w, type = ty, confidence = c\<rparr>) (take 3 synonyms)"
  | (filler) "?r = map (\<lambda>alt. \<lparr>word = alt, type = ''alternative'', confidence = 0.4\<rparr>)
                    general_alternatives"
    by blast
  then show ?thesis
  proof cases
    case entry
    from entry(1) lexicon_words_distinct have d: "distinct (map lower synonyms)" by fastforce
    then have "distinct (take 3 (map lower synonyms))" by (rule distinct_take)
    then have d3: "distinct (map lower (take 3 synonyms))" by (simp add: take_map)
    from entry(1) lexicon_five have l: "length synonyms = 5" by fastforce
    from entry(2) show ?thesis
    proof
      assume r: "?r = map (\<lambda>w. \<lparr>word = w, type = ty, confidence = c\<rparr>) synonyms"
      show ?thesis
        unfolding r using d l constant_confidence_sorted [of ty c synonyms]
        by (simp only: words_of_suggestions length_map) simp
    next
      assume r: "?r = map (\<lambda>w. \<lparr>word = w, type = ty, confidence = c\<rparr>) (take 3 synonyms)"
      show ?thesis
        unfolding r using d3 l constant_confidence_sorted [of ty c "take 3 synonyms"]
        by (simp only: words_of_suggestions length_map) simp
    qed
  next
    case filler
    show ?thesis
      unfolding filler
      using general_alternatives_distinct
        constant_confidence_sorted [of "''alternative''" "0.4" general_alternatives]
      by (simp only: words_of_suggestions length_map) (simp add: general_alternatives_def)
  qed
qed

lemma all_less_upt: "(\<forall>j<n. P j) = (\<forall>j \<in> set [0..<n]. P j)"
  by auto

text \<open>A selection that is empty after stripping only prints the line that says so.\<close>

lemma text_selection_detected_blank:
  "strip text = [] \<Longrightarrow>
   text_selection_detected text pos self =
     self\<lparr>console := console self @ [Empty_selection_ignored]\<rparr>"
  by (simp add: text_selection_detected_def)

section \<open>Claims\<close>

text \<open>
  C1. For every non-empty input text, \<open>get_suggestions\<close> on the built-in dictionary
  returns a list in which no two suggestions have the same word up to case, whose
  confidences never increase from one suggestion to the next, and which has at most
  5 entries.
\<close>

theorem lookup_invariants:
  assumes "text \<noteq> []"
  shows "distinct (map (lower \<circ> word) (get_suggestions MockWordSuggestionService_init text))
   \<and> sorted_wrt (\<ge>) (map confidence (get_suggestions MockWordSuggestionService_init text))
   \<and> length (get_suggestions MockWordSuggestionService_init text) \<le> 5"
  by (rule get_suggestions_invariants)

theorem lookup_invariants_witness:
  "distinct (map (lower \<circ> word) (get_suggestions MockWordSuggestionService_init ''very good''))
   \<and> sorted_wrt (\<ge>)
        (map confidence (get_suggestions MockWordSuggestionService_init ''very good''))
   \<and> length (get_suggestions MockWordSuggestionService_init ''very good'') \<le> 5"
proof -
  have "''very good'' \<noteq> []" by simp
  then show ?thesis by (rule lookup_invariants)
qed

text \<open>
  C4. If the normalised input (stripped and lowercased) is a key of the built-in
  dictionary, \<open>get_suggestions\<close> returns up to 5 of that entry's words, in the stored
  order, each of type \<open>synonym\<close> with confidence 0.8; for \<open>good\<close> these are
  excellent, great, wonderful, fantastic, superb.
\<close>

theorem exact_match_synonyms:
  "((key, synonyms) \<in> set lexicon \<and> lower (strip text) = key \<longrightarrow>
      get_suggestions MockWordSuggestionService_init text =
        map (\<lambda>w. \<lparr>word = w, type = ''synonym'', confidence = 0.8\<rparr>) (take 5 synonyms))
   \<and> get_suggestions MockWordSuggestionService_init ''good'' =
        [\<lparr>word = ''excellent'', type = ''synonym'', confidence = 0.8\<rparr>,
         \<lparr>word = ''great'', type = ''synonym'', confidence = 0.8\<rparr>,
         \<lparr>word = ''wonderful'', type = ''synonym'', confidence = 0.8\<rparr>,
         \<lparr>word = ''fantastic'', type = ''synonym'', confidence = 0.8\<rparr>,
         \<lparr>word = ''superb'', type = ''synonym'', confidence = 0.8\<rparr>]"
proof
  show "(key, synonyms) \<in> set lexicon \<and> lower (strip text) = key \<longrightarrow>
      get_suggestions MockWordSuggestionService_init text =
        map (\<lambda>w. \<lparr>word = w, type = ''synonym'', confidence = 0.8\<rparr>) (take 5 synonyms)"
  proof
    assume a: "(key, synonyms) \<in> set lexicon \<and> lower (strip text) = key"
    then have e: "(lower (strip text), synonyms) \<in> set lexicon" by simp
    from a lexicon_five have "length synonyms = 5" by fastforce
    with get_suggestions_exact [OF e] show
      "get_suggestions MockWordSuggestionService_init text =
        map (\<lambda>w. \<lparr>word = w, type = ''synonym'', confidence = 0.8\<rparr>) (take 5 synonyms)"
      by simp
  qed
  show "get_suggestions MockWordSuggestionService_init ''good'' =
        [\<lparr>word = ''excellent'', type = ''synonym'', confidence = 0.8\<rparr>,
         \<lparr>word = ''great'', type = ''synonym'', confidence = 0.8\<rparr>,
         \<lparr>word = ''wonderful'', type = ''synonym'', confidence = 0.8\<rparr>,
         \<lparr>word = ''fantastic'', type = ''synonym'', confidence = 0.8\<rparr>,
         \<lparr>word = ''superb'', type = ''synonym'', confidence = 0.8\<rparr>]"
    by code_simp
qed

theorem exact_match_synonyms_witness:
  "get_suggestions MockWordSuggestionService_init '' Happy  '' =
     [\<lparr>word = ''joyful'', type = ''synonym'', confidence = 0.8\<rparr>,
      \<lparr>word = ''cheerful'', type = ''synonym'', confidence = 0.8\<rparr>,
      \<lparr>word = ''delighted'', type = ''synonym'', confidence = 0.8\<rparr>,
      \<lparr>word = ''elated'', type = ''synonym'', confidence = 0.8\<rparr>,
      \<lparr>word = ''content'', type = ''synonym'', confidence = 0.8\<rparr>]"
proof -
  have h: "(''happy'', [''joyful'', ''cheerful'', ''delighted'', ''elated'', ''content''])
             \<in> set lexicon \<and> lower (strip '' Happy  '') = ''happy''"
    by code_simp
  from exact_match_synonyms
    [of "''happy''" "[''joyful'', ''cheerful'', ''delighted'', ''elated'', ''content'']"
       "'' Happy  ''"] h
  show ?thesis by simp
qed

text \<open>
  C10. For every input string, the empty and the whitespace-only ones included,
  \<open>get_suggestions\<close> on the built-in dictionary returns a non-empty list of at least
  3 suggestions: 5 when the normalised input is a key, 3 when it is not a key but some
  key is in it or it is in some key, and 5 (all five fillers) when no key matches.
\<close>

theorem get_suggestions_length:
  "length (get_suggestions MockWordSuggestionService_init text) =
     (if lower (strip text) \<in> fst ` set lexicon then 5
      else if \<exists>(key, synonyms) \<in> set lexicon.
                sublist key (lower (strip text)) \<or> sublist (lower (strip text)) key
           then 3
      else 5)
   \<and> 3 \<le> length (get_suggestions MockWordSuggestionService_init text)
   \<and> get_suggestions MockWordSuggestionService_init text \<noteq> []"
proof -
  let ?c = "lower (strip text)"
  let ?r = "get_suggestions MockWordSuggestionService_init text"
  have len: "length ?r =
     (if ?c \<in> fst ` set lexicon then 5
      else if \<exists>(key, synonyms) \<in> set lexicon. sublist key ?c \<or> sublist ?c key then 3
      else 5)"
  proof (cases "?c \<in> fst ` set lexicon")
    case True
    then obtain synonyms where e: "(?c, synonyms) \<in> set lexicon" by auto
    with lexicon_five have "length synonyms = 5" by fastforce
    with e True show ?thesis by (simp add: get_suggestions_exact)
  next
    case False
    show ?thesis
    proof (cases "\<exists>(key, synonyms) \<in> set lexicon. sublist key ?c \<or> sublist ?c key")
      case True
      from partial_matches_hit [OF True] obtain key synonyms
        where e: "(key, synonyms) \<in> set lexicon"
          and p: "partial_matches ?c lexicon =
                    map (\<lambda>w. \<lparr>word = w, type = ''related'', confidence = 0.6\<rparr>) (take 3 synonyms)"
        by auto
      from e lexicon_five have "length synonyms = 5" by fastforce
      with get_suggestions_partial [OF False e p] True False show ?thesis by simp
    next
      case nohit: False
      then have "\<forall>(key, synonyms) \<in> set lexicon. \<not> sublist key ?c \<and> \<not> sublist ?c key"
        by auto
      from get_suggestions_no_match [OF this] nohit False show ?thesis
        by (simp add: general_alternatives_def)
    qed
  qed
  then have "3 \<le> length ?r" by (simp split: if_splits)
  moreover from this have "?r \<noteq> []" by auto
  ultimately show ?thesis using len by simp
qed

theorem get_suggestions_length_witness:
  "length (get_suggestions MockWordSuggestionService_init '''') = 3
   \<and> length (get_suggestions MockWordSuggestionService_init ''   '') = 3
   \<and> length (get_suggestions MockWordSuggestionService_init ''good'') = 5
   \<and> length (get_suggestions MockWordSuggestionService_init ''unknownword'') = 5"
  using get_suggestions_length [of "''''"] get_suggestions_length [of "''   ''"]
    get_suggestions_length [of "''good''"] get_suggestions_length [of "''unknownword''"]
  by code_simp

text \<open>
  C2, as the specification states it, fails: for \<open>unknownword\<close> no key matches, and
  the result has all five fillers, not three.
\<close>

theorem unknownword_five_fillers:
  "get_suggestions MockWordSuggestionService_init ''unknownword'' =
     [\<lparr>word = ''alternative'', type = ''alternative'', confidence = 0.4\<rparr>,
      \<lparr>word = ''option'', type = ''alternative'', confidence = 0.4\<rparr>,
      \<lparr>word = ''choice'', type = ''alternative'', confidence = 0.4\<rparr>,
      \<lparr>word = ''variant'', type = ''alternative'', confidence = 0.4\<rparr>,
      \<lparr>word = ''substitute'', type = ''alternative'', confidence = 0.4\<rparr>]
   \<and> length (get_suggestions MockWordSuggestionService_init ''unknownword'') \<noteq> 3"
  by code_simp

text \<open>
  C2, amended. When no key of the dictionary is in the normalised input and the
  normalised input is in no key (so there is neither an exact nor a partial match),
  \<open>get_suggestions\<close> returns all five fillers alternative, option, choice, variant,
  substitute, in this order, each of type \<open>alternative\<close> with confidence 0.4: the
  slice \<open>general_alternatives[:5 - len(suggestions)]\<close> fills the list up to 5 entries.
  This holds for every dictionary.
\<close>

theorem no_match_all_fillers:
  assumes "\<forall>(key, synonyms) \<in> set (built_in_synonyms self).
             \<not> sublist key (lower (strip text)) \<and> \<not> sublist (lower (strip text)) key"
  shows "get_suggestions self text =
     [\<lparr>word = ''alternative'', type = ''alternative'', confidence = 0.4\<rparr>,
      \<lparr>word = ''option'', type = ''alternative'', confidence = 0.4\<rparr>,
      \<lparr>word = ''choice'', type = ''alternative'', confidence = 0.4\<rparr>,
      \<lparr>word = ''variant'', type = ''alternative'', confidence = 0.4\<rparr>,
      \<lparr>word = ''substitute'', type = ''alternative'', confidence = 0.4\<rparr>]"
  using get_suggestions_no_match [OF assms] by (simp add: general_alternatives_def)

theorem no_match_all_fillers_witness:
  "get_suggestions MockWordSuggestionService_init ''Qwerty'' =
     [\<lparr>word = ''alternative'', type = ''alternative'', confidence = 0.4\<rparr>,
      \<lparr>word = ''option'', type = ''alternative'', confidence = 0.4\<rparr>,
      \<lparr>word = ''choice'', type = ''alternative'', confidence = 0.4\<rparr>,
      \<lparr>word = ''variant'', type = ''alternative'', confidence = 0.4\<rparr>,
      \<lparr>word = ''substitute'', type = ''alternative'', confidence = 0.4\<rparr>]"
proof -
  have "\<forall>(key, synonyms) \<in> set lexicon.
          \<not> sublist key (lower (strip ''Qwerty'')) \<and> \<not> sublist (lower (strip ''Qwerty'')) key"
    by code_simp
  then show ?thesis by (rule no_match_all_fillers)
qed

text \<open>
  C3, as the specification states it, fails: for the whitespace-only input of three
  blanks \<open>get_suggestions\<close> returns three suggestions.
\<close>

theorem whitespace_not_empty:
  "get_suggestions MockWordSuggestionService_init ''   '' =
     [\<lparr>word = ''excellent'', type = ''related'', confidence = 0.6\<rparr>,
      \<lparr>word = ''great'', type = ''related'', confidence = 0.6\<rparr>,
      \<lparr>word = ''wonderful'', type = ''related'', confidence = 0.6\<rparr>]
   \<and> get_suggestions MockWordSuggestionService_init ''   '' \<noteq> []"
  by code_simp

text \<open>
  C3, amended. \<open>get_suggestions\<close> has no check for an empty input. For every input
  that is empty after stripping, the normalised input is the empty string, which is in
  every key; the first key of the built-in dictionary, \<open>good\<close>, wins, and the result
  is excellent, great, wonderful, each of type \<open>related\<close> with confidence 0.6.
\<close>

theorem blank_input_first_entry:
  assumes "strip text = []"
  shows "get_suggestions MockWordSuggestionService_init text =
     [\<lparr>word = ''excellent'', type = ''related'', confidence = 0.6\<rparr>,
      \<lparr>word = ''great'', type = ''related'', confidence = 0.6\<rparr>,
      \<lparr>word = ''wonderful'', type = ''related'', confidence = 0.6\<rparr>]"
proof -
  from assms have c: "lower (strip text) = []" by (simp add: lower_def)
  have k: "[] \<notin> fst ` set lexicon" by code_simp
  have e: "(''good'', [''excellent'', ''great'', ''wonderful'', ''fantastic'', ''superb''])
             \<in> set lexicon"
    by code_simp
  have p: "partial_matches [] lexicon =
     map (\<lambda>w. \<lparr>word = w, type = ''related'', confidence = 0.6\<rparr>)
       (take 3 [''excellent'', ''great'', ''wonderful'', ''fantastic'', ''superb''])"
    by code_simp
  from k e p c have "get_suggestions MockWordSuggestionService_init text =
     map (\<lambda>w. \<lparr>word = w, type = ''related'', confidence = 0.6\<rparr>)
       (take 3 [''excellent'', ''great'', ''wonderful'', ''fantastic'', ''superb''])"
    by (intro get_suggestions_partial) simp_all
  then show ?thesis by simp
qed

theorem blank_input_first_entry_witness:
  "get_suggestions MockWordSuggestionService_init '''' =
     [\<lparr>word = ''excellent'', type = ''related'', confidence = 0.6\<rparr>,
      \<lparr>word = ''great'', type = ''related'', confidence = 0.6\<rparr>,
      \<lparr>word = ''wonderful'', type = ''related'', confidence = 0.6\<rparr>]"
proof -
  have "strip '''' = []" by code_simp
  then show ?thesis by (rule blank_input_first_entry)
qed

text \<open>
  C7. \<open>get_suggestions\<close> is case-insensitive: for every service and every input
  text, the result is the one for the stripped and lowercased text, and the one for the
  lowercased text; the results for \<open>HAPPY\<close> and \<open>happy\<close> are equal.
\<close>

theorem lookup_case_insensitive:
  "get_suggestions self text = get_suggestions self (lower (strip text))
   \<and> get_suggestions self text = get_suggestions self (lower text)
   \<and> get_suggestions MockWordSuggestionService_init ''HAPPY'' =
       get_suggestions MockWordSuggestionService_init ''happy''"
proof -
  have "lower (strip (lower text)) = lower (strip text)"
    by (simp add: strip_lower lower_idem)
  then have "get_suggestions self text = get_suggestions self (lower text)"
    by (simp add: get_suggestions_def)
  moreover have "get_suggestions self text = get_suggestions self (lower (strip text))"
    by (simp add: get_suggestions_def clean_idem)
  moreover have "lower (strip ''HAPPY'') = lower (strip ''happy'')" by code_simp
  then have "get_suggestions MockWordSuggestionService_init ''HAPPY'' =
       get_suggestions MockWordSuggestionService_init ''happy''"
    by (simp add: get_suggestions_def)
  ultimately show ?thesis by simp
qed

text \<open>
  C5. When the normalised input is no key of the built-in dictionary, the keys are
  scanned in insertion order, and the first key that is in the input, or that the input
  is in, wins, whatever later keys would match: if the key at position \<open>i\<close> matches and
  no key before it does, the result is the first 3 words of that entry, each of type
  \<open>related\<close> with confidence 0.6. For \<open>beauti\<close> these are the first three words of the
  entry \<open>beautiful\<close>: gorgeous, stunning, attractive.
\<close>

theorem partial_match_first_key:
  assumes "lower (strip text) \<notin> fst ` set lexicon"
    and "i < length lexicon"
    and "sublist (fst (lexicon ! i)) (lower (strip text))
         \<or> sublist (lower (strip text)) (fst (lexicon ! i))"
    and "\<forall>j<i. \<not> sublist (fst (lexicon ! j)) (lower (strip text))
              \<and> \<not> sublist (lower (strip text)) (fst (lexicon ! j))"
  shows "get_suggestions MockWordSuggestionService_init text =
           map (\<lambda>w. \<lparr>word = w, type = ''related'', confidence = 0.6\<rparr>)
             (take 3 (snd (lexicon ! i)))
         \<and> length (get_suggestions MockWordSuggestionService_init text) = 3
         \<and> get_suggestions MockWordSuggestionService_init ''beauti'' =
             [\<lparr>word = ''gorgeous'', type = ''related'', confidence = 0.6\<rparr>,
              \<lparr>word = ''stunning'', type = ''related'', confidence = 0.6\<rparr>,
              \<lparr>word = ''attractive'', type = ''related'', confidence = 0.6\<rparr>]"
proof -
  let ?r = "get_suggestions MockWordSuggestionService_init text"
  have p: "partial_matches (lower (strip text)) lexicon =
             map (\<lambda>w. \<lparr>word = w, type = ''related'', confidence = 0.6\<rparr>)
               (take 3 (snd (lexicon ! i)))"
    using assms(2-4) by (rule partial_matches_first)
  from assms(2) have "lexicon ! i \<in> set lexicon" by (rule nth_mem)
  then have e: "(fst (lexicon ! i), snd (lexicon ! i)) \<in> set lexicon" by simp
  have r: "?r = map (\<lambda>w. \<lparr>word = w, type = ''related'', confidence = 0.6\<rparr>)
                  (take 3 (snd (lexicon ! i)))"
    using assms(1) e p by (rule get_suggestions_partial)
  from e lexicon_five have "length (snd (lexicon ! i)) = 5" by fastforce
  with r have l: "length ?r = 3" by simp
  have b: "get_suggestions MockWordSuggestionService_init ''beauti'' =
             [\<lparr>word = ''gorgeous'', type = ''related'', confidence = 0.6\<rparr>,
              \<lparr>word = ''stunning'', type = ''related'', confidence = 0.6\<rparr>,
              \<lparr>word = ''attractive'', type = ''related'', confidence = 0.6\<rparr>]"
    by code_simp
  from r l b show ?thesis by (intro conjI)
qed

theorem partial_match_first_key_witness:
  "get_suggestions MockWordSuggestionService_init ''A Beautiful Day'' =
     [\<lparr>word = ''gorgeous'', type = ''related'', confidence = 0.6\<rparr>,
      \<lparr>word = ''stunning'', type = ''related'', confidence = 0.6\<rparr>,
      \<lparr>word = ''attractive'', type = ''related'', confidence = 0.6\<rparr>]"
proof -
  let ?c = "lower (strip ''A Beautiful Day'')"
  have 1: "?c \<notin> fst ` set lexicon" by code_simp
  have 2: "8 < length lexicon" by code_simp
  have 3: "sublist (fst (lexicon ! 8)) ?c \<or> sublist ?c (fst (lexicon ! 8))" by code_simp
  have 4: "\<forall>j<8. \<not> sublist (fst (lexicon ! j)) ?c \<and> \<not> sublist ?c (fst (lexicon ! j))"
    unfolding all_less_upt by code_simp
  have 5: "map (\<lambda>w. \<lparr>word = w, type = ''related'', confidence = 0.6\<rparr>)
             (take 3 (snd (lexicon ! 8))) =
     [\<lparr>word = ''gorgeous'', type = ''related'', confidence = 0.6\<rparr>,
      \<lparr>word = ''stunning'', type = ''related'', confidence = 0.6\<rparr>,
      \<lparr>word = ''attractive'', type = ''related'', confidence = 0.6\<rparr>]"
    by code_simp
  from partial_match_first_key [OF 1 2 3 4] 5 show ?thesis by simp
qed

text \<open>
  C8, as the specification states it, fails: after the selection \<open>good\<close> has put the
  window on the screen, a whitespace-only selection leaves it visible with its
  suggestions; neither \<open>hide\<close> nor \<open>show_suggestions\<close> is called, and the last line
  printed is the one for an ignored selection.
\<close>

theorem blank_selection_keeps_overlay:
  "is_visible (suggestion_window
     (text_selection_detected ''   '' (250, 500)
        (text_selection_detected ''good'' (150, 300) MockAppDelegate_init)))
   \<and> current_suggestions (suggestion_window
       (text_selection_detected ''   '' (250, 500)
          (text_selection_detected ''good'' (150, 300) MockAppDelegate_init))) \<noteq> []
   \<and> last (console
       (text_selection_detected ''   '' (250, 500)
          (text_selection_detected ''good'' (150, 300) MockAppDelegate_init))) =
      Empty_selection_ignored"
proof -
  define app where "app = text_selection_detected ''good'' (150, 300) MockAppDelegate_init"
  have v: "is_visible (suggestion_window app)"
    unfolding app_def by code_simp
  have c: "current_suggestions (suggestion_window app) \<noteq> []"
    unfolding app_def by code_simp
  have "strip ''   '' = []" by code_simp
  then have "text_selection_detected ''   '' (250, 500) app =
               app\<lparr>console := console app @ [Empty_selection_ignored]\<rparr>"
    by (rule text_selection_detected_blank)
  with v c show ?thesis unfolding app_def by simp
qed

text \<open>
  C8, amended. When \<open>text_selection_detected\<close> receives a text that is empty after
  stripping, it returns at once: the delegate is unchanged but for the line printed for
  the ignored selection. No suggestion is asked for (the result is the same whatever the
  service is) and the suggestion window is left as it is, visible or not.
\<close>

theorem blank_selection_ignored:
  assumes "strip text = []"
  shows "text_selection_detected text pos self =
           self\<lparr>console := console self @ [Empty_selection_ignored]\<rparr>
         \<and> suggestion_window (text_selection_detected text pos self) = suggestion_window self"
  using text_selection_detected_blank [OF assms] by simp

theorem blank_selection_ignored_witness:
  "text_selection_detected '' '' (250, 500) MockAppDelegate_init =
     MockAppDelegate_init\<lparr>console := [Empty_selection_ignored]\<rparr>"
proof -
  have "strip '' '' = []" by code_simp
  from blank_selection_ignored [OF this, of "(250, 500)" MockAppDelegate_init]
  show ?thesis by (simp add: MockAppDelegate_init_def)
qed

end
